theory Spec2Isabelle
  imports Complex_Main "HOL-Library.Sublist"
begin

section \<open>Runtime values\<close>

text \<open>
  A JavaScript number is an IEEE double: a finite value, which is a rational number, or one
  of NaN, +Infinity, -Infinity. Every finite double is a rational, so a statement about all
  \<open>Finite q\<close> covers every finite double (negative zero is the rational 0: it is an
  integer within every range below, as in JavaScript).
\<close>

datatype jsnumber = Finite rat | NaN | PosInfinity | NegInfinity

text \<open>
  The values \<open>valueToPostgresType\<close> can receive (its parameter is \<open>unknown\<close>). Of an
  object the function observes two things only, which are the two fields of \<open>JSObject\<close>:
  whether it is an \<open>instanceof Date\<close>, and whether it is callable (then its \<open>typeof\<close> is
  "function", otherwise "object").
\<close>

datatype jsvalue =
    JSUndefined
  | JSNull
  | JSBoolean bool
  | JSNumber jsnumber
  | JSBigInt int
  | JSString string
  | JSSymbol string
  | JSObject (instanceofDate: bool) (callable: bool)

fun typeof :: "jsvalue \<Rightarrow> string" where
  "typeof JSUndefined = ''undefined''"
| "typeof JSNull = ''object''"
| "typeof (JSBoolean b) = ''boolean''"
| "typeof (JSNumber n) = ''number''"
| "typeof (JSBigInt i) = ''bigint''"
| "typeof (JSString s) = ''string''"
| "typeof (JSSymbol d) = ''symbol''"
| "typeof (JSObject d c) = (if c then ''function'' else ''object'')"

text \<open>\<open>value instanceof Date\<close>: false on every primitive.\<close>

fun instanceof_Date :: "jsvalue \<Rightarrow> bool" where
  "instanceof_Date (JSObject d c) = d"
| "instanceof_Date v = False"

text \<open>\<open>Number.isInteger\<close>: a finite number with no fractional part.\<close>

fun Number_isInteger :: "jsnumber \<Rightarrow> bool" where
  "Number_isInteger (Finite q) = (rat_of_int \<lfloor>q\<rfloor> = q)"
| "Number_isInteger n = False"

text \<open>The relational operators \<open>>=\<close> and \<open><=\<close> on two numbers: false when either is NaN.\<close>

fun js_le :: "jsnumber \<Rightarrow> jsnumber \<Rightarrow> bool" where
  "js_le NaN y = False"
| "js_le x NaN = False"
| "js_le NegInfinity y = True"
| "js_le x PosInfinity = True"
| "js_le PosInfinity y = False"
| "js_le x NegInfinity = False"
| "js_le (Finite a) (Finite b) = (a \<le> b)"

definition js_ge :: "jsnumber \<Rightarrow> jsnumber \<Rightarrow> bool" where
  "js_ge x y = js_le y x"

section \<open>Type inference from a runtime value\<close>

text \<open>The tagged error class \<open>UnsupportedJSTypePostgresConversionError\<close> and its two fields.\<close>

record UnsupportedJSTypePostgresConversionError =
  cause :: jsvalue
  message :: string

text \<open>
  \<open>valueToPostgresType\<close> is an Effect that succeeds with a string (\<open>Inr\<close>) or fails with
  the error (\<open>Inl\<close>). The \<open>switch (typeof value)\<close> is the chain of comparisons in the
  order of its cases; in the case "number" the value is a number, which the \<open>case\<close>
  expression takes out (only a \<open>JSNumber\<close> has that \<open>typeof\<close>, so no other value
  reaches it).
\<close>

definition valueToPostgresType ::
  "jsvalue \<Rightarrow> UnsupportedJSTypePostgresConversionError + string" where
  "valueToPostgresType v =
    (if v = JSNull \<or> v = JSUndefined then Inr ''TEXT''
     else if instanceof_Date v then Inr ''TIMESTAMP WITH TIME ZONE''
     else if typeof v = ''object'' then Inr ''JSONB''
     else if typeof v = ''string'' then Inr ''TEXT''
     else if typeof v = ''bigint'' then Inr ''BIGINT''
     else if typeof v = ''number'' then
       (case v of JSNumber n \<Rightarrow>
         if Number_isInteger n then
           (let MIN_INTEGER = Finite (- 2147483648);
                MAX_INTEGER = Finite 2147483647
            in if js_ge n MIN_INTEGER \<and> js_le n MAX_INTEGER then Inr ''INTEGER''
               else Inr ''BIGINT'')
         else Inr ''DOUBLE PRECISION'')
     else if typeof v = ''boolean'' then Inr ''BOOLEAN''
     else Inl \<lparr>cause = JSNull,
               message = ''Unsupported type for value provided in script result: '' @ typeof v\<rparr>)"

text \<open>
  A name occurs in a message when it is a contiguous part of it. This is the reading of
  "the error names the field" used below.
\<close>

fun occurs_in :: "string \<Rightarrow> string \<Rightarrow> bool" where
  "occurs_in s [] = (s = [])"
| "occurs_in s (c # cs) = (prefix s (c # cs) \<or> occurs_in s cs)"

section \<open>The PgType class\<close>

text \<open>
  A \<open>PgType\<close> is a JavaScript object: its methods assign to its fields and return
  \<open>this\<close>, so two variables may denote one object. Objects therefore live in a store and
  are denoted by references. The store holds an object at every reference (a JavaScript
  reference never dangles) and the next reference that \<open>new\<close> hands out. The fields are
  \<open>_type\<close>, \<open>_nullable\<close> and \<open>_postgresType\<close>.
\<close>

type_synonym ref = nat

record PgType_object =
  type_field :: string
  nullable_field :: bool
  postgresType_field :: string

record store =
  objects :: "ref \<Rightarrow> PgType_object"
  next_ref :: ref

text \<open>A store in which nothing has been constructed yet.\<close>

definition empty_store :: store where
  "empty_store =
    \<lparr>objects = (\<lambda>r. \<lparr>type_field = [], nullable_field = False, postgresType_field = []\<rparr>),
     next_ref = 0\<rparr>"

text \<open>
  Every operation takes the store and returns its result with the store it leaves.
  The constructor \<open>new PgType(postgresType)\<close>:
\<close>

definition PgType_new :: "string \<Rightarrow> store \<Rightarrow> ref \<times> store" where
  "PgType_new postgresType \<sigma> =
    (next_ref \<sigma>,
     \<sigma>\<lparr>objects := (objects \<sigma>)(next_ref \<sigma> :=
          \<lparr>type_field = ''PgType'', nullable_field = True, postgresType_field = postgresType\<rparr>),
       next_ref := Suc (next_ref \<sigma>)\<rparr>)"

definition notNull :: "ref \<Rightarrow> store \<Rightarrow> ref \<times> store" where
  "notNull this \<sigma> =
    (this, \<sigma>\<lparr>objects := (objects \<sigma>)(this := (objects \<sigma> this)\<lparr>nullable_field := False\<rparr>)\<rparr>)"

definition nullable :: "ref \<Rightarrow> store \<Rightarrow> ref \<times> store" where
  "nullable this \<sigma> =
    (this, \<sigma>\<lparr>objects := (objects \<sigma>)(this := (objects \<sigma> this)\<lparr>nullable_field := True\<rparr>)\<rparr>)"

definition getNullable :: "ref \<Rightarrow> store \<Rightarrow> bool" where
  "getNullable this \<sigma> = nullable_field (objects \<sigma> this)"

definition getPostgresType :: "ref \<Rightarrow> store \<Rightarrow> string" where
  "getPostgresType this \<sigma> = postgresType_field (objects \<sigma> this)"

definition getType :: "ref \<Rightarrow> store \<Rightarrow> string" where
  "getType this \<sigma> = type_field (objects \<sigma> this)"

definition toString :: "ref \<Rightarrow> store \<Rightarrow> string" where
  "toString this \<sigma> =
    postgresType_field (objects \<sigma> this)
      @ (if nullable_field (objects \<sigma> this) then '' '' else '' NOT NULL'')"

text \<open>
  The object \<open>pgType\<close> of factories, as a function of its keys. The factories \<open>char\<close> and
  \<open>varchar\<close> take a number \<open>n\<close> and put it into a template literal; the conversion of a
  number to a string that JavaScript applies there is the parameter \<open>numberToString\<close>.
\<close>

datatype pgType_key =
    text_key | integer_key | boolean_key | date_key | dateTime_key | bigint_key
  | smallint_key | real_key | doublePrecision_key | smallserial_key | serial_key
  | bigserial_key | numeric_key | decimal_key | money_key
  | char_key jsnumber | varchar_key jsnumber
  | time_key | interval_key | point_key | line_key | lseg_key | box_key | polygon_key
  | circle_key | inet_key | cidr_key | macaddr_key | tsvector_key | tsquery_key | uuid_key
  | json_key | jsonb_key | xml_key | bytea_key

fun pgType :: "(jsnumber \<Rightarrow> string) \<Rightarrow> pgType_key \<Rightarrow> store \<Rightarrow> ref \<times> store" where
  "pgType numberToString text_key = PgType_new ''text''"
| "pgType numberToString integer_key = PgType_new ''integer''"
| "pgType numberToString boolean_key = PgType_new ''boolean''"
| "pgType numberToString date_key = PgType_new ''date''"
| "pgType numberToString dateTime_key = PgType_new ''timestamp''"
| "pgType numberToString bigint_key = PgType_new ''bigint''"
| "pgType numberToString smallint_key = PgType_new ''smallint''"
| "pgType numberToString real_key = PgType_new ''real''"
| "pgType numberToString doublePrecision_key = PgType_new ''double precision''"
| "pgType numberToString smallserial_key = PgType_new ''smallserial''"
| "pgType numberToString serial_key = PgType_new ''serial''"
| "pgType numberToString bigserial_key = PgType_new ''bigserial''"
| "pgType numberToString numeric_key = PgType_new ''numeric''"
| "pgType numberToString decimal_key = PgType_new ''decimal''"
| "pgType numberToString money_key = PgType_new ''money''"
| "pgType numberToString (char_key n) = PgType_new (''char('' @ numberToString n @ '')'')"
| "pgType numberToString (varchar_key n) = PgType_new (''varchar('' @ numberToString n @ '')'')"
| "pgType numberToString time_key = PgType_new ''time''"
| "pgType numberToString interval_key = PgType_new ''interval''"
| "pgType numberToString point_key = PgType_new ''point''"
| "pgType numberToString line_key = PgType_new ''line''"
| "pgType numberToString lseg_key = PgType_new ''lseg''"
| "pgType numberToString box_key = PgType_new ''box''"
| "pgType numberToString polygon_key = PgType_new ''polygon''"
| "pgType numberToString circle_key = PgType_new ''circle''"
| "pgType numberToString inet_key = PgType_new ''inet''"
| "pgType numberToString cidr_key = PgType_new ''cidr''"
| "pgType numberToString macaddr_key = PgType_new ''macaddr''"
| "pgType numberToString tsvector_key = PgType_new ''tsvector''"
| "pgType numberToString tsquery_key = PgType_new ''tsquery''"
| "pgType numberToString uuid_key = PgType_new ''uuid''"
| "pgType numberToString json_key = PgType_new ''json''"
| "pgType numberToString jsonb_key = PgType_new ''jsonb''"
| "pgType numberToString xml_key = PgType_new ''xml''"
| "pgType numberToString bytea_key = PgType_new ''bytea''"

section \<open>The identity column\<close>

text \<open>
  \<open>a || b\<close> where \<open>a\<close> is a string or undefined (\<open>None\<close>): \<open>a\<close> when it is truthy, that
  is defined and not the empty string, and \<open>b\<close> otherwise.
\<close>

definition js_or :: "string option \<Rightarrow> string \<Rightarrow> string" where
  "js_or a b = (case a of None \<Rightarrow> b | Some s \<Rightarrow> if s = [] then b else s)"

text \<open>
  \<open>postgresIdColumn(type?)\<close>: the optional argument is \<open>None\<close> when it is left out, and
  \<open>type?.getPostgresType()\<close> is then undefined.
\<close>

definition postgresIdColumn :: "ref option \<Rightarrow> store \<Rightarrow> string" where
  "postgresIdColumn ty \<sigma> =
    (let idType = js_or (map_option (\<lambda>t. getPostgresType t \<sigma>) ty)
                        ''BIGINT GENERATED ALWAYS AS IDENTITY''
     in ''id '' @ idType @ '' PRIMARY KEY'')"

section \<open>The command line\<close>

text \<open>
  What the option parser hands to the handler of \<open>command\<close>: the directory, and each
  option wrapped by \<open>Options.optional\<close>. The wrapped options are \<open>Options.boolean\<close>
  and a repeated option, which have defaults of their own (false, and the empty list), so
  an option that was not given reaches the handler as \<open>Some False\<close> or \<open>Some []\<close>;
  \<open>None\<close> is what \<open>Options.optional\<close> yields for an option without a default.
\<close>

record command_args =
  directory_arg :: string
  ignoreGlob_arg :: "string list option"
  verbose_arg :: "bool option"
  dryRun_arg :: "bool option"

text \<open>The configuration object that the handler passes to \<open>typefusion\<close>.\<close>

record typefusion_config =
  directory :: string
  ignoreGlob :: "string list"
  verbose :: bool
  alwaysPrintExecutionGraph :: bool
  dryRun :: bool

text \<open>\<open>Option.getOrElse(self, () => d)\<close>.\<close>

definition getOrElse :: "'a option \<Rightarrow> 'a \<Rightarrow> 'a" where
  "getOrElse self d = (case self of None \<Rightarrow> d | Some a \<Rightarrow> a)"

text \<open>
  The handler of \<open>command\<close>. The core entry point \<open>typefusion\<close> is imported from another
  module and is a parameter here.
\<close>

definition command_handler :: "(typefusion_config \<Rightarrow> 'r) \<Rightarrow> command_args \<Rightarrow> 'r" where
  "command_handler typefusion args =
    typefusion
      \<lparr>directory = directory_arg args,
       ignoreGlob = getOrElse (ignoreGlob_arg args) [],
       verbose = getOrElse (verbose_arg args) False,
       alwaysPrintExecutionGraph = True,
       dryRun = getOrElse (dryRun_arg args) False\<rparr>"

section \<open>Properties of type inference\<close>

lemma valueToPostgresType_integral:
  "valueToPostgresType (JSNumber (Finite (rat_of_int k))) =
     (if - 2147483648 \<le> k \<and> k \<le> 2147483647 then Inr ''INTEGER'' else Inr ''BIGINT'')"
proof -
  have lo: "(- 2147483648 \<le> rat_of_int k) = (- 2147483648 \<le> k)"
    using of_int_le_iff [of "- 2147483648" k, where ?'a = rat] by simp
  have hi: "(rat_of_int k \<le> 2147483647) = (k \<le> 2147483647)"
    using of_int_le_iff [of k 2147483647, where ?'a = rat] by simp
  show ?thesis
    by (simp add: valueToPostgresType_def js_ge_def lo hi)
qed

lemma not_isInteger_double:
  "\<not> Number_isInteger n \<Longrightarrow> valueToPostgresType (JSNumber n) = Inr ''DOUBLE PRECISION''"
  by (simp add: valueToPostgresType_def)

lemma isInteger_is_int: "Number_isInteger n \<Longrightarrow> \<exists>k. n = Finite (rat_of_int k)"
  by (cases n) (auto intro: sym)

text \<open>
  C1. A number that is an integer within [-2147483648, 2147483647] infers to "INTEGER", an
  integer outside that range to "BIGINT", and a number that is no integer (a fractional
  value, NaN or an infinity) to "DOUBLE PRECISION". In particular 5000000000 infers to
  "BIGINT" and 3.14 to "DOUBLE PRECISION", both for the decimal fraction 314/100 and for
  the double that the literal 3.14 denotes, 7070651414971679 / 2^51.
\<close>

theorem C1_numeric_inference:
  "(- 2147483648 \<le> k \<and> k \<le> 2147483647 \<longrightarrow>
      valueToPostgresType (JSNumber (Finite (rat_of_int k))) = Inr ''INTEGER'')
   \<and> (k < - 2147483648 \<or> 2147483647 < k \<longrightarrow>
      valueToPostgresType (JSNumber (Finite (rat_of_int k))) = Inr ''BIGINT'')
   \<and> ((\<forall>j. n \<noteq> Finite (rat_of_int j)) \<longrightarrow>
      valueToPostgresType (JSNumber n) = Inr ''DOUBLE PRECISION'')
   \<and> valueToPostgresType (JSNumber (Finite 5000000000)) = Inr ''BIGINT''
   \<and> valueToPostgresType (JSNumber (Finite (314 / 100))) = Inr ''DOUBLE PRECISION''
   \<and> valueToPostgresType (JSNumber (Finite (7070651414971679 / 2251799813685248)))
       = Inr ''DOUBLE PRECISION''"
proof -
  have a: "- 2147483648 \<le> k \<and> k \<le> 2147483647 \<longrightarrow>
      valueToPostgresType (JSNumber (Finite (rat_of_int k))) = Inr ''INTEGER''"
    by (simp add: valueToPostgresType_integral)
  have b: "k < - 2147483648 \<or> 2147483647 < k \<longrightarrow>
      valueToPostgresType (JSNumber (Finite (rat_of_int k))) = Inr ''BIGINT''"
    by (auto simp add: valueToPostgresType_integral)
  have c: "(\<forall>j. n \<noteq> Finite (rat_of_int j)) \<longrightarrow>
      valueToPostgresType (JSNumber n) = Inr ''DOUBLE PRECISION''"
    using isInteger_is_int [of n] not_isInteger_double [of n] by blast
  have d: "valueToPostgresType (JSNumber (Finite 5000000000)) = Inr ''BIGINT''"
    using valueToPostgresType_integral [of 5000000000] by simp
  have "\<lfloor>314 / 100 :: rat\<rfloor> = 3"
    by (simp add: floor_eq_iff)
  then have "\<not> Number_isInteger (Finite (314 / 100))"
    unfolding Number_isInteger.simps by simp
  then have e: "valueToPostgresType (JSNumber (Finite (314 / 100))) = Inr ''DOUBLE PRECISION''"
    by (rule not_isInteger_double)
  have "\<lfloor>7070651414971679 / 2251799813685248 :: rat\<rfloor> = 3"
    by (simp add: floor_eq_iff)
  then have "\<not> Number_isInteger (Finite (7070651414971679 / 2251799813685248))"
    unfolding Number_isInteger.simps by simp
  then have f: "valueToPostgresType (JSNumber (Finite (7070651414971679 / 2251799813685248)))
       = Inr ''DOUBLE PRECISION''"
    by (rule not_isInteger_double)
  from a b c d e f show ?thesis by blast
qed

theorem C1_numeric_inference_witness:
  "valueToPostgresType (JSNumber (Finite 2147483647)) = Inr ''INTEGER''
   \<and> valueToPostgresType (JSNumber (Finite (- 2147483649))) = Inr ''BIGINT''
   \<and> valueToPostgresType (JSNumber NaN) = Inr ''DOUBLE PRECISION''"
proof -
  have a: "valueToPostgresType (JSNumber (Finite 2147483647)) = Inr ''INTEGER''"
    using C1_numeric_inference [of 2147483647 NaN] by simp
  have b: "valueToPostgresType (JSNumber (Finite (- 2147483649))) = Inr ''BIGINT''"
    using C1_numeric_inference [of "- 2147483649" NaN] by simp
  have c: "valueToPostgresType (JSNumber NaN) = Inr ''DOUBLE PRECISION''"
    using C1_numeric_inference [of 0 NaN] by simp
  from a b c show ?thesis by blast
qed

lemma occurs_in_self: "occurs_in s s"
  by (cases s) simp_all

lemma occurs_in_append: "occurs_in s (p @ s)"
  by (induction p) (simp_all add: occurs_in_self)

lemma valueToPostgresType_unsupported:
  assumes "v \<noteq> JSNull" and "v \<noteq> JSUndefined" and "\<not> instanceof_Date v"
    and "typeof v = ''function'' \<or> typeof v = ''symbol''"
  shows "valueToPostgresType v =
    Inl \<lparr>cause = JSNull,
         message = ''Unsupported type for value provided in script result: '' @ typeof v\<rparr>"
  using assms by (cases v) (simp_all add: valueToPostgresType_def split: if_splits)

text \<open>
  C2, as stated, fails: the error does not name the field. The function receives the value
  only, so for a function held in a field called "price" the message is
  "Unsupported type for value provided in script result: function", in which "price" does
  not occur.
\<close>

theorem C2_field_not_named_counterexample:
  "valueToPostgresType (JSObject False True) =
     Inl \<lparr>cause = JSNull,
          message = ''Unsupported type for value provided in script result: function''\<rparr>
   \<and> \<not> occurs_in ''price'' (message (projl (valueToPostgresType (JSObject False True))))"
  by (simp add: valueToPostgresType_def)

text \<open>
  C2, amended. For every value outside the supported kinds (it is neither null nor
  undefined nor a Date, and its \<open>typeof\<close> is "function" or "symbol"), type inference fails
  with an \<open>UnsupportedJSTypePostgresConversionError\<close> whose cause is null and whose message is
  "Unsupported type for value provided in script result: " followed by the \<open>typeof\<close> of the
  value: the message names the offending kind, and nothing else of the value or its field.
\<close>

theorem C2_unsupported_kind_error:
  "v \<noteq> JSNull \<and> v \<noteq> JSUndefined \<and> \<not> instanceof_Date v
     \<and> (typeof v = ''function'' \<or> typeof v = ''symbol'') \<longrightarrow>
   valueToPostgresType v =
     Inl \<lparr>cause = JSNull,
          message = ''Unsupported type for value provided in script result: '' @ typeof v\<rparr>
   \<and> occurs_in (typeof v) (message (projl (valueToPostgresType v)))"
proof
  assume h: "v \<noteq> JSNull \<and> v \<noteq> JSUndefined \<and> \<not> instanceof_Date v
     \<and> (typeof v = ''function'' \<or> typeof v = ''symbol'')"
  then have e: "valueToPostgresType v =
     Inl \<lparr>cause = JSNull,
          message = ''Unsupported type for value provided in script result: '' @ typeof v\<rparr>"
    by (simp add: valueToPostgresType_unsupported)
  have "occurs_in (typeof v) (''Unsupported type for value provided in script result: '' @ typeof v)"
    by (rule occurs_in_append)
  with e show "valueToPostgresType v =
     Inl \<lparr>cause = JSNull,
          message = ''Unsupported type for value provided in script result: '' @ typeof v\<rparr>
   \<and> occurs_in (typeof v) (message (projl (valueToPostgresType v)))"
    by simp
qed

theorem C2_unsupported_kind_error_witness:
  "valueToPostgresType (JSSymbol ''tag'') =
     Inl \<lparr>cause = JSNull,
          message = ''Unsupported type for value provided in script result: symbol''\<rparr>
   \<and> occurs_in ''symbol'' (message (projl (valueToPostgresType (JSSymbol ''tag''))))"
  using C2_unsupported_kind_error [of "JSSymbol ''tag''"] by simp

text \<open>C3. A null and an undefined value both infer to "TEXT".\<close>

theorem C3_null_undefined_text:
  "valueToPostgresType JSNull = Inr ''TEXT'' \<and> valueToPostgresType JSUndefined = Inr ''TEXT''"
  by (simp add: valueToPostgresType_def)

text \<open>
  C4. A Date instance infers to "TIMESTAMP WITH TIME ZONE" (whatever its \<open>typeof\<close>), an
  object that is no Date and is not callable to "JSONB", a string to "TEXT" and a boolean to
  "BOOLEAN".
\<close>

theorem C4_remaining_kinds:
  "valueToPostgresType (JSObject True c) = Inr ''TIMESTAMP WITH TIME ZONE''
   \<and> valueToPostgresType (JSObject False False) = Inr ''JSONB''
   \<and> valueToPostgresType (JSString s) = Inr ''TEXT''
   \<and> valueToPostgresType (JSBoolean b) = Inr ''BOOLEAN''"
  by (simp add: valueToPostgresType_def)

lemma valueToPostgresType_supported:
  assumes "v = JSNull \<or> v = JSUndefined \<or> instanceof_Date v
     \<or> (typeof v \<noteq> ''function'' \<and> typeof v \<noteq> ''symbol'')"
  shows "valueToPostgresType v \<in> Inr ` {''TEXT'', ''TIMESTAMP WITH TIME ZONE'', ''JSONB'',
     ''BIGINT'', ''INTEGER'', ''DOUBLE PRECISION'', ''BOOLEAN''}"
proof (cases v)
  case (JSNumber n)
  then show ?thesis
    by (simp add: valueToPostgresType_def Let_def)
next
  case (JSObject d c)
  with assms show ?thesis
    by (simp add: valueToPostgresType_def split: if_splits)
qed (use assms in \<open>simp_all add: valueToPostgresType_def\<close>)

text \<open>
  C8. \<open>valueToPostgresType\<close> returns on every value. It fails exactly when the value is
  neither null nor undefined nor a Date and its \<open>typeof\<close> is "function" or "symbol"; on
  every other value it succeeds with one of the seven type names. A bigint succeeds with
  "BIGINT".
\<close>

theorem C8_total_and_failure_set:
  "((\<exists>e. valueToPostgresType v = Inl e) \<longleftrightarrow>
      (v \<noteq> JSNull \<and> v \<noteq> JSUndefined \<and> \<not> instanceof_Date v
        \<and> (typeof v = ''function'' \<or> typeof v = ''symbol'')))
   \<and> ((\<forall>e. valueToPostgresType v \<noteq> Inl e) \<longrightarrow>
      (\<exists>s \<in> {''TEXT'', ''TIMESTAMP WITH TIME ZONE'', ''JSONB'', ''BIGINT'', ''INTEGER'',
              ''DOUBLE PRECISION'', ''BOOLEAN''}. valueToPostgresType v = Inr s))
   \<and> valueToPostgresType (JSBigInt i) = Inr ''BIGINT''"
  (is "(?fails \<longleftrightarrow> ?unsupported) \<and> (?succeeds \<longrightarrow> ?seven) \<and> ?big")
proof -
  have fails: "?fails" if "?unsupported"
    using that valueToPostgresType_unsupported [of v] by blast
  have seven: "?seven" if "\<not> ?unsupported"
  proof -
    from that have "v = JSNull \<or> v = JSUndefined \<or> instanceof_Date v
       \<or> (typeof v \<noteq> ''function'' \<and> typeof v \<noteq> ''symbol'')"
      by blast
    then have "valueToPostgresType v \<in> Inr ` {''TEXT'', ''TIMESTAMP WITH TIME ZONE'',
       ''JSONB'', ''BIGINT'', ''INTEGER'', ''DOUBLE PRECISION'', ''BOOLEAN''}"
      by (rule valueToPostgresType_supported)
    then show ?thesis
      by (rule imageE) (rule bexI)
  qed
  have iff: "?fails \<longleftrightarrow> ?unsupported"
  proof
    assume f: "?fails"
    show "?unsupported"
    proof (rule ccontr)
      assume "\<not> ?unsupported"
      then have "?seven" by (rule seven)
      then obtain s where "valueToPostgresType v = Inr s" ..
      with f show False by fastforce
    qed
  next
    assume "?unsupported"
    then show "?fails" by (rule fails)
  qed
  have succ: "?succeeds \<longrightarrow> ?seven"
  proof
    assume "?succeeds"
    with iff have "\<not> ?unsupported" by metis
    then show "?seven" by (rule seven)
  qed
  have big: "?big"
    by (simp add: valueToPostgresType_def)
  from iff succ big show ?thesis
    by (intro conjI)
qed

theorem C8_total_and_failure_set_witness:
  "(\<exists>e. valueToPostgresType (JSObject False True) = Inl e)
   \<and> (\<exists>s \<in> {''TEXT'', ''TIMESTAMP WITH TIME ZONE'', ''JSONB'', ''BIGINT'', ''INTEGER'',
              ''DOUBLE PRECISION'', ''BOOLEAN''}. valueToPostgresType (JSBigInt 7) = Inr s)"
proof -
  have a: "\<exists>e. valueToPostgresType (JSObject False True) = Inl e"
    using C8_total_and_failure_set [of "JSObject False True" 7] by simp
  have "\<forall>e. valueToPostgresType (JSBigInt 7) \<noteq> Inl e"
    using C8_total_and_failure_set [of "JSBigInt 7" 7] by simp
  then have b: "\<exists>s \<in> {''TEXT'', ''TIMESTAMP WITH TIME ZONE'', ''JSONB'', ''BIGINT'', ''INTEGER'',
              ''DOUBLE PRECISION'', ''BOOLEAN''}. valueToPostgresType (JSBigInt 7) = Inr s"
    using C8_total_and_failure_set [of "JSBigInt 7" 7] by blast
  from a b show ?thesis by blast
qed

section \<open>Properties of PgType\<close>

text \<open>
  C6, as stated, fails: the descriptors are mutable. A descriptor made by the factory
  \<open>text\<close> in the empty store is nullable; after \<open>t.notNull()\<close> the same \<open>t\<close> is not
  nullable, and the call returned \<open>t\<close> itself, not a new descriptor. A following
  \<open>t.nullable()\<close> changes \<open>t\<close> back.
\<close>

theorem C6_notNull_mutates_counterexample:
  "getNullable (fst (PgType_new ''text'' empty_store)) (snd (PgType_new ''text'' empty_store))
     = True
   \<and> getNullable (fst (PgType_new ''text'' empty_store))
        (snd (notNull (fst (PgType_new ''text'' empty_store))
               (snd (PgType_new ''text'' empty_store))))
     = False
   \<and> fst (notNull (fst (PgType_new ''text'' empty_store))
             (snd (PgType_new ''text'' empty_store)))
     = fst (PgType_new ''text'' empty_store)
   \<and> getNullable (fst (PgType_new ''text'' empty_store))
        (snd (nullable (fst (PgType_new ''text'' empty_store))
               (snd (notNull (fst (PgType_new ''text'' empty_store))
                      (snd (PgType_new ''text'' empty_store))))))
     = True"
  by (simp add: PgType_new_def empty_store_def notNull_def nullable_def getNullable_def)

text \<open>
  C6, amended. A PgType descriptor is a mutable object. \<open>t.notNull()\<close> sets the nullable
  flag of \<open>t\<close> itself to false and returns \<open>t\<close>; \<open>t.nullable()\<close> sets it to true and
  returns \<open>t\<close>; no new descriptor is made. Neither call changes the postgres type or the
  phantom type of \<open>t\<close>, and neither changes any other descriptor.
\<close>

theorem C6_fluent_setters_mutate_this:
  "fst (notNull t \<sigma>) = t
   \<and> getNullable t (snd (notNull t \<sigma>)) = False
   \<and> fst (nullable t \<sigma>) = t
   \<and> getNullable t (snd (nullable t \<sigma>)) = True
   \<and> getPostgresType t (snd (notNull t \<sigma>)) = getPostgresType t \<sigma>
   \<and> getPostgresType t (snd (nullable t \<sigma>)) = getPostgresType t \<sigma>
   \<and> getType t (snd (notNull t \<sigma>)) = getType t \<sigma>
   \<and> getType t (snd (nullable t \<sigma>)) = getType t \<sigma>
   \<and> next_ref (snd (notNull t \<sigma>)) = next_ref \<sigma>
   \<and> next_ref (snd (nullable t \<sigma>)) = next_ref \<sigma>
   \<and> (u \<noteq> t \<longrightarrow> objects (snd (notNull t \<sigma>)) u = objects \<sigma> u
                \<and> objects (snd (nullable t \<sigma>)) u = objects \<sigma> u)"
  by (simp add: notNull_def nullable_def getNullable_def getPostgresType_def getType_def)

theorem C6_fluent_setters_mutate_this_witness:
  "objects (snd (notNull 0 (snd (PgType_new ''uuid'' (snd (PgType_new ''text'' empty_store)))))) 1
     = \<lparr>type_field = ''PgType'', nullable_field = True, postgresType_field = ''uuid''\<rparr>
   \<and> getNullable 0 (snd (notNull 0 (snd (PgType_new ''uuid'' (snd (PgType_new ''text'' empty_store))))))
     = False"
  using C6_fluent_setters_mutate_this
    [of 0 "snd (PgType_new ''uuid'' (snd (PgType_new ''text'' empty_store)))" 1]
  by (simp add: PgType_new_def empty_store_def)

text \<open>
  C9. Every factory of \<open>pgType\<close> constructs a descriptor that is nullable. For every
  descriptor \<open>t\<close>, \<open>t.notNull().getNullable()\<close> is false and \<open>t.nullable().getNullable()\<close>
  is true, and calling \<open>notNull\<close> (or \<open>nullable\<close>) a second time on the result observes the
  same nullability as calling it once.
\<close>

theorem C9_nullability_algebra:
  "(let (t, \<sigma>1) = pgType numberToString k \<sigma> in getNullable t \<sigma>1) = True
   \<and> (let (r, \<sigma>1) = notNull t \<sigma> in getNullable r \<sigma>1) = False
   \<and> (let (r, \<sigma>1) = nullable t \<sigma> in getNullable r \<sigma>1) = True
   \<and> (let (r1, \<sigma>1) = notNull t \<sigma>; (r2, \<sigma>2) = notNull r1 \<sigma>1 in getNullable r2 \<sigma>2)
       = (let (r1, \<sigma>1) = notNull t \<sigma> in getNullable r1 \<sigma>1)
   \<and> (let (r1, \<sigma>1) = nullable t \<sigma>; (r2, \<sigma>2) = nullable r1 \<sigma>1 in getNullable r2 \<sigma>2)
       = (let (r1, \<sigma>1) = nullable t \<sigma> in getNullable r1 \<sigma>1)"
proof -
  have new: "(let (t, \<sigma>1) = PgType_new p \<sigma> in getNullable t \<sigma>1) = True" for p
    by (simp add: PgType_new_def getNullable_def)
  have "(let (t, \<sigma>1) = pgType numberToString k \<sigma> in getNullable t \<sigma>1) = True"
    by (cases k) (simp_all only: pgType.simps new)
  then show ?thesis
    by (simp add: notNull_def nullable_def getNullable_def)
qed

text \<open>
  C10. \<open>t.toString()\<close> is the postgres type of \<open>t\<close> followed by one space when \<open>t\<close> is
  nullable, and followed by " NOT NULL" when it is not.
\<close>

theorem C10_toString:
  "(getNullable t \<sigma> \<longrightarrow> toString t \<sigma> = getPostgresType t \<sigma> @ '' '')
   \<and> (\<not> getNullable t \<sigma> \<longrightarrow> toString t \<sigma> = getPostgresType t \<sigma> @ '' NOT NULL'')"
  by (simp add: toString_def getNullable_def getPostgresType_def)

theorem C10_toString_witness:
  "toString (fst (PgType_new ''jsonb'' empty_store)) (snd (PgType_new ''jsonb'' empty_store))
     = ''jsonb ''
   \<and> toString 0 (snd (notNull 0 (snd (PgType_new ''jsonb'' empty_store)))) = ''jsonb NOT NULL''"
proof -
  have a: "toString (fst (PgType_new ''jsonb'' empty_store)) (snd (PgType_new ''jsonb'' empty_store))
     = ''jsonb ''"
    using C10_toString [of "fst (PgType_new ''jsonb'' empty_store)"
        "snd (PgType_new ''jsonb'' empty_store)"]
    by (simp add: PgType_new_def empty_store_def getNullable_def getPostgresType_def)
  have b: "toString 0 (snd (notNull 0 (snd (PgType_new ''jsonb'' empty_store)))) = ''jsonb NOT NULL''"
    using C10_toString [of 0 "snd (notNull 0 (snd (PgType_new ''jsonb'' empty_store)))"]
    by (simp add: PgType_new_def empty_store_def notNull_def getNullable_def getPostgresType_def)
  from a b show ?thesis by blast
qed

section \<open>Properties of the identity column\<close>

text \<open>
  C5, as stated, fails for a supplied descriptor whose postgres type is the empty string:
  \<open>||\<close> takes the empty string for absent, so \<open>postgresIdColumn(new PgType(""))\<close> is the
  default column and not "id  PRIMARY KEY".
\<close>

theorem C5_empty_type_counterexample:
  "postgresIdColumn (Some (fst (PgType_new [] empty_store))) (snd (PgType_new [] empty_store))
     = ''id BIGINT GENERATED ALWAYS AS IDENTITY PRIMARY KEY''
   \<and> postgresIdColumn (Some (fst (PgType_new [] empty_store))) (snd (PgType_new [] empty_store))
     \<noteq> ''id '' @ getPostgresType (fst (PgType_new [] empty_store))
                   (snd (PgType_new [] empty_store)) @ '' PRIMARY KEY''"
  by (simp add: postgresIdColumn_def js_or_def getPostgresType_def PgType_new_def
      empty_store_def)

text \<open>
  C5, amended. With no argument \<open>postgresIdColumn\<close> is
  "id BIGINT GENERATED ALWAYS AS IDENTITY PRIMARY KEY". With a descriptor whose postgres
  type is not the empty string it is "id ", that postgres type, " PRIMARY KEY". With a
  descriptor whose postgres type is the empty string it is the same column as with no
  argument.
\<close>

theorem C5_postgresIdColumn:
  "postgresIdColumn None \<sigma> = ''id BIGINT GENERATED ALWAYS AS IDENTITY PRIMARY KEY''
   \<and> (getPostgresType t \<sigma> \<noteq> [] \<longrightarrow>
        postgresIdColumn (Some t) \<sigma> = ''id '' @ getPostgresType t \<sigma> @ '' PRIMARY KEY'')
   \<and> (getPostgresType t \<sigma> = [] \<longrightarrow>
        postgresIdColumn (Some t) \<sigma> = ''id BIGINT GENERATED ALWAYS AS IDENTITY PRIMARY KEY'')"
  by (simp add: postgresIdColumn_def js_or_def)

theorem C5_postgresIdColumn_witness:
  "postgresIdColumn (Some (fst (PgType_new ''uuid'' empty_store)))
       (snd (PgType_new ''uuid'' empty_store))
     = ''id uuid PRIMARY KEY''
   \<and> postgresIdColumn (Some (fst (PgType_new [] empty_store))) (snd (PgType_new [] empty_store))
     = postgresIdColumn None (snd (PgType_new [] empty_store))"
proof -
  have a: "postgresIdColumn (Some (fst (PgType_new ''uuid'' empty_store)))
       (snd (PgType_new ''uuid'' empty_store)) = ''id uuid PRIMARY KEY''"
    using C5_postgresIdColumn [of "snd (PgType_new ''uuid'' empty_store)"
        "fst (PgType_new ''uuid'' empty_store)"]
    by (simp add: getPostgresType_def PgType_new_def empty_store_def)
  have b: "postgresIdColumn (Some (fst (PgType_new [] empty_store)))
       (snd (PgType_new [] empty_store))
     = postgresIdColumn None (snd (PgType_new [] empty_store))"
    using C5_postgresIdColumn [of "snd (PgType_new [] empty_store)"
        "fst (PgType_new [] empty_store)"]
    by (simp add: getPostgresType_def PgType_new_def empty_store_def)
  from a b show ?thesis by blast
qed

section \<open>Properties of the command line\<close>

text \<open>
  C7. When the three options are not given, the handler calls \<open>typefusion\<close> with the
  directory, the empty list of ignore globs, verbose false and dry-run false. An option
  that was not given reaches the handler as \<open>None\<close> or as its own default in \<open>Some\<close>
  (\<open>Some []\<close> for the ignore globs, \<open>Some False\<close> for the two flags), and the call is
  the same in each of these cases, in every combination. Each default holds by itself as
  well, whatever the other options are: the configuration that reaches \<open>typefusion\<close> is
  read off with the identity in its place. The directory always comes from the argument.
\<close>

theorem C7_cli_defaults:
  "command_handler typefusion
      \<lparr>directory_arg = d, ignoreGlob_arg = None, verbose_arg = None, dryRun_arg = None\<rparr>
     = typefusion \<lparr>directory = d, ignoreGlob = [], verbose = False,
                   alwaysPrintExecutionGraph = True, dryRun = False\<rparr>
   \<and> command_handler typefusion
      \<lparr>directory_arg = d, ignoreGlob_arg = Some [], verbose_arg = Some False,
       dryRun_arg = Some False\<rparr>
     = typefusion \<lparr>directory = d, ignoreGlob = [], verbose = False,
                   alwaysPrintExecutionGraph = True, dryRun = False\<rparr>
   \<and> ((g = None \<or> g = Some []) \<and> (v = None \<or> v = Some False)
        \<and> (r = None \<or> r = Some False) \<longrightarrow>
      command_handler typefusion
        \<lparr>directory_arg = d, ignoreGlob_arg = g, verbose_arg = v, dryRun_arg = r\<rparr>
       = typefusion \<lparr>directory = d, ignoreGlob = [], verbose = False,
                     alwaysPrintExecutionGraph = True, dryRun = False\<rparr>)
   \<and> ignoreGlob (command_handler (\<lambda>c. c) (args\<lparr>ignoreGlob_arg := None\<rparr>)) = []
   \<and> ignoreGlob (command_handler (\<lambda>c. c) (args\<lparr>ignoreGlob_arg := Some []\<rparr>)) = []
   \<and> verbose (command_handler (\<lambda>c. c) (args\<lparr>verbose_arg := None\<rparr>)) = False
   \<and> verbose (command_handler (\<lambda>c. c) (args\<lparr>verbose_arg := Some False\<rparr>)) = False
   \<and> dryRun (command_handler (\<lambda>c. c) (args\<lparr>dryRun_arg := None\<rparr>)) = False
   \<and> dryRun (command_handler (\<lambda>c. c) (args\<lparr>dryRun_arg := Some False\<rparr>)) = False
   \<and> directory (command_handler (\<lambda>c. c) args) = directory_arg args"
proof -
  have general: "command_handler typefusion
        \<lparr>directory_arg = d, ignoreGlob_arg = g, verbose_arg = v, dryRun_arg = r\<rparr>
       = typefusion \<lparr>directory = d, ignoreGlob = [], verbose = False,
                     alwaysPrintExecutionGraph = True, dryRun = False\<rparr>"
    if "g = None \<or> g = Some []" and "v = None \<or> v = Some False"
      and "r = None \<or> r = Some False"
    using that by (auto simp add: command_handler_def getOrElse_def)
  have single: "ignoreGlob (command_handler (\<lambda>c. c) (args\<lparr>ignoreGlob_arg := None\<rparr>)) = []
   \<and> ignoreGlob (command_handler (\<lambda>c. c) (args\<lparr>ignoreGlob_arg := Some []\<rparr>)) = []
   \<and> verbose (command_handler (\<lambda>c. c) (args\<lparr>verbose_arg := None\<rparr>)) = False
   \<and> verbose (command_handler (\<lambda>c. c) (args\<lparr>verbose_arg := Some False\<rparr>)) = False
   \<and> dryRun (command_handler (\<lambda>c. c) (args\<lparr>dryRun_arg := None\<rparr>)) = False
   \<and> dryRun (command_handler (\<lambda>c. c) (args\<lparr>dryRun_arg := Some False\<rparr>)) = False
   \<and> directory (command_handler (\<lambda>c. c) args) = directory_arg args"
    by (simp add: command_handler_def getOrElse_def)
  from general single show ?thesis
    by (simp add: command_handler_def getOrElse_def)
qed

theorem C7_cli_defaults_witness:
  "command_handler (\<lambda>c. c)
      \<lparr>directory_arg = ''scripts'', ignoreGlob_arg = Some [], verbose_arg = Some False,
       dryRun_arg = None\<rparr>
     = \<lparr>directory = ''scripts'', ignoreGlob = [], verbose = False,
        alwaysPrintExecutionGraph = True, dryRun = False\<rparr>"
  using C7_cli_defaults [of "\<lambda>c. c" "''scripts''" "Some []" "Some False" None]
  by simp

end
